theory Spec2Isabelle
  imports Main
begin

section \<open>The certificate-issuance gateway of cmd/ssh_usercert_gen/main.go\<close>

text \<open>
  The program is one HTTP handler, \<open>certGenHandler\<close>, with its helpers
  \<open>checkUserPassword\<close>, \<open>checkAuth\<close> and \<open>writeFailureResponse\<close>. The handler talks
  to collaborators that live outside the file (the LDAP and htpasswd verifiers of
  \<open>authutil\<close>, the certificate generator \<open>certgen\<close>, the file system, the multipart
  parser of \<open>net/http\<close>). They are parameters of the model: a record \<open>world\<close> holds
  what each of them answers, and the handler records every call it makes to one of
  them, in program order, in a trace.
\<close>

subsection \<open>Data\<close>

text \<open>A Go \<open>error\<close> is its message; \<open>nil\<close> is \<open>None\<close> where an error may be absent.\<close>

type_synonym goerror = string

text \<open>The parsed LDAP URL and the CA signer are opaque to this file.\<close>

datatype ldapurl = LdapURL string

datatype signer = CASigner string

record baseConfig =
  Http_Address :: string
  TLS_Cert_Filename :: string
  TLS_Key_Filename :: string
  UserAuth :: string
  SSH_CA_Filename :: string
  Htpasswd_Filename :: string

record LdapConfig =
  Bind_Pattern :: string
  LDAP_Target_URLs :: string

record AppConfigFile =
  Base :: baseConfig
  Ldap :: LdapConfig

record RuntimeState =
  Config :: AppConfigFile
  Signer :: signer
  HostIdentity :: string

text \<open>
  The collaborators. Each field is the function of the same name in the source's
  imports; \<open>Inl\<close> is a returned error. \<open>Sprintf\<close> is \<open>fmt.Sprintf\<close> with one
  argument, \<open>StatusText\<close> is \<open>http.StatusText\<close>, and \<open>debug\<close> is the \<open>-debug\<close> flag.
\<close>

record world =
  ParseLDAPURL :: "string \<Rightarrow> goerror + ldapurl"
  CheckLDAPUserPassword :: "ldapurl \<Rightarrow> string \<Rightarrow> string \<Rightarrow> int \<Rightarrow> goerror + bool"
  ReadFile :: "string \<Rightarrow> goerror + string"
  CheckHtpasswdUserPassword :: "string \<Rightarrow> string \<Rightarrow> string \<Rightarrow> goerror + bool"
  GenSSHCertFileStringFromSSSDPublicKey :: "string \<Rightarrow> signer \<Rightarrow> string \<Rightarrow> goerror + string"
  GenSSHCertFileString :: "string \<Rightarrow> string \<Rightarrow> signer \<Rightarrow> string \<Rightarrow> goerror + string"
  Sprintf :: "string \<Rightarrow> string \<Rightarrow> string"
  StatusText :: "int \<Rightarrow> string"
  debug :: bool

text \<open>
  The request, as the handler reads it: the method, \<open>r.URL.Path\<close>, the result of
  \<open>r.BasicAuth()\<close> (\<open>None\<close> when \<open>ok\<close> is false: no Authorization header, or one that
  is not well-formed Basic authentication), and what the multipart parser makes of
  the body: \<open>MultipartForm maxMemory\<close> is the result of
  \<open>r.ParseMultipartForm(maxMemory)\<close>, an error or the files of the form, by field
  name, each an error (the file cannot be opened) or its content.
\<close>

record request =
  Method :: string
  URLPath :: string
  BasicAuth :: "(string \<times> string) option"
  MultipartForm :: "int \<Rightarrow> goerror + (string \<Rightarrow> (goerror + string) list)"

text \<open>One entry of the trace: a call to a collaborator, or a line written to the log.\<close>

datatype event =
  Call_ParseLDAPURL string
| Call_CheckLDAPUserPassword ldapurl string string int
| Call_ReadFile string
| Call_CheckHtpasswdUserPassword string string string
| Call_GenSSHCertFileStringFromSSSDPublicKey string signer string
| Call_GenSSHCertFileString string string signer string
| Call_ParseMultipartForm int
| Call_FormFile string
| Call_MatchString string
| Log string

text \<open>
  The state a request handler works on: the \<open>http.ResponseWriter\<close> (its header map,
  the status code once \<open>WriteHeader\<close> has run, the body written so far) and the trace.
\<close>

record hstate =
  header :: "string \<rightharpoonup> string list"
  status :: "int option"
  body :: string
  trace :: "event list"

definition newResponse :: hstate where
  "newResponse = \<lparr>header = Map.empty, status = None, body = [], trace = []\<rparr>"

definition emit :: "event \<Rightarrow> hstate \<Rightarrow> hstate" where
  "emit e s = s\<lparr>trace := trace s @ [e]\<rparr>"

subsection \<open>The pieces of net/http and strings that the handler uses\<close>

definition StatusBadRequest :: int where "StatusBadRequest = 400"
definition StatusUnauthorized :: int where "StatusUnauthorized = 401"
definition StatusForbidden :: int where "StatusForbidden = 403"
definition StatusNotFound :: int where "StatusNotFound = 404"
definition StatusMethodNotAllowed :: int where "StatusMethodNotAllowed = 405"
definition StatusInternalServerError :: int where "StatusInternalServerError = 500"

text \<open>
  \<open>textproto.CanonicalMIMEHeaderKey\<close>: a key made of token bytes only has the first
  letter and every letter after a hyphen in upper case and the other letters in
  lower case; any other key is left as it is. \<open>Header.Set\<close> and \<open>Header.Get\<close> go
  through it.
\<close>

definition isUpper :: "char \<Rightarrow> bool" where
  "isUpper c = (65 \<le> (of_char c :: nat) \<and> (of_char c :: nat) \<le> 90)"

definition isLower :: "char \<Rightarrow> bool" where
  "isLower c = (97 \<le> (of_char c :: nat) \<and> (of_char c :: nat) \<le> 122)"

definition isDigit :: "char \<Rightarrow> bool" where
  "isDigit c = (48 \<le> (of_char c :: nat) \<and> (of_char c :: nat) \<le> 57)"

definition toUpper :: "char \<Rightarrow> char" where
  "toUpper c = (if isLower c then char_of ((of_char c :: nat) - 32) else c)"

definition toLower :: "char \<Rightarrow> char" where
  "toLower c = (if isUpper c then char_of ((of_char c :: nat) + 32) else c)"

definition validHeaderFieldByte :: "char \<Rightarrow> bool" where
  "validHeaderFieldByte c =
     (isUpper c \<or> isLower c \<or> isDigit c \<or> c \<in> set ''!#$%&*+-.^_`|~'' \<or> c = CHR 0x27)"

fun canonicalise :: "bool \<Rightarrow> string \<Rightarrow> string" where
  "canonicalise upper [] = []"
| "canonicalise upper (c # cs) =
     (if upper then toUpper c else toLower c) # canonicalise (c = CHR ''-'') cs"

definition CanonicalMIMEHeaderKey :: "string \<Rightarrow> string" where
  "CanonicalMIMEHeaderKey s =
     (if list_all validHeaderFieldByte s then canonicalise True s else s)"

definition Header_Set :: "string \<Rightarrow> string \<Rightarrow> hstate \<Rightarrow> hstate" where
  "Header_Set key v w = w\<lparr>header := (header w)(CanonicalMIMEHeaderKey key \<mapsto> [v])\<rparr>"

definition Header_Get :: "hstate \<Rightarrow> string \<Rightarrow> string" where
  "Header_Get w key =
     (case header w (CanonicalMIMEHeaderKey key) of
        None \<Rightarrow> [] | Some [] \<Rightarrow> [] | Some (v # _) \<Rightarrow> v)"

text \<open>
  \<open>w.WriteHeader(code)\<close> fixes the status of the response; a second call is ignored.
  \<open>w.Write(b)\<close> sends status 200 first when no status has been sent.
\<close>

definition WriteHeader :: "int \<Rightarrow> hstate \<Rightarrow> hstate" where
  "WriteHeader code w = (if status w = None then w\<lparr>status := Some code\<rparr> else w)"

definition Write :: "string \<Rightarrow> hstate \<Rightarrow> hstate" where
  "Write b w = (let w' = WriteHeader 200 w in w'\<lparr>body := body w' @ b\<rparr>)"

text \<open>
  \<open>http.NotFound(w, r)\<close> is \<open>http.Error(w, "404 page not found", 404)\<close>: two headers,
  the status, and the text followed by a newline.
\<close>

definition NotFound :: "hstate \<Rightarrow> hstate" where
  "NotFound w =
     Write (''404 page not found'' @ [CHR 0x0A])
       (WriteHeader StatusNotFound
         (Header_Set ''X-Content-Type-Options'' ''nosniff''
           (Header_Set ''Content-Type'' ''text/plain; charset=utf-8'' w)))"

text \<open>The verb \<open>%d\<close> of \<open>fmt\<close>: a Go \<open>int\<close> in decimal.\<close>

fun decimal :: "nat \<Rightarrow> string" where
  "decimal n =
     (if n < 10 then [char_of (48 + n)]
      else decimal (n div 10) @ [char_of (48 + n mod 10)])"

definition itoa :: "int \<Rightarrow> string" where
  "itoa i = (if i < 0 then CHR ''-'' # decimal (nat (- i)) else decimal (nat i))"

text \<open>
  \<open>strings.Split(s, sep)\<close> for a separator of one byte: the pieces of \<open>s\<close> between
  the separators, so one piece more than there are separators (and the one piece
  \<open>""\<close> for the empty string). \<open>piece\<close> is the piece being read.
\<close>

fun splitFrom :: "string \<Rightarrow> char \<Rightarrow> string \<Rightarrow> string list" where
  "splitFrom piece sep [] = [piece]"
| "splitFrom piece sep (c # cs) =
     (if c = sep then piece # splitFrom [] sep cs else splitFrom (piece @ [c]) sep cs)"

definition Split :: "string \<Rightarrow> char \<Rightarrow> string list" where
  "Split s sep = splitFrom [] sep s"

subsection \<open>convertToBindDN, checkUserPassword\<close>

definition convertToBindDN :: "world \<Rightarrow> string \<Rightarrow> string \<Rightarrow> string" where
  "convertToBindDN W username bind_pattern = Sprintf W bind_pattern username"

definition timeoutSecs :: int where "timeoutSecs = 3"

text \<open>
  The \<open>for\<close> loop of \<open>checkUserPassword\<close> over the LDAP URLs. \<open>Some vaild\<close> is the
  \<open>return vaild, nil\<close> inside the loop; \<open>None\<close> is the loop running to its end.
\<close>

fun ldapLoop :: "world \<Rightarrow> string \<Rightarrow> string \<Rightarrow> string list \<Rightarrow> hstate \<Rightarrow> bool option \<times> hstate" where
  "ldapLoop W bindDN password [] s = (None, s)"
| "ldapLoop W bindDN password (ldapUrl # rest) s =
     (let s1 = emit (Call_ParseLDAPURL ldapUrl) s in
      case ParseLDAPURL W ldapUrl of
        Inl err \<Rightarrow> ldapLoop W bindDN password rest (emit (Log (''Failed to parse '' @ ldapUrl)) s1)
      | Inr u \<Rightarrow>
          (let s2 = emit (Call_CheckLDAPUserPassword u bindDN password timeoutSecs) s1 in
           case CheckLDAPUserPassword W u bindDN password timeoutSecs of
             Inl err \<Rightarrow> ldapLoop W bindDN password rest s2
           | Inr vaild \<Rightarrow> (Some vaild, s2)))"

text \<open>The result is Go's pair \<open>(bool, error)\<close>.\<close>

definition checkUserPassword ::
  "world \<Rightarrow> string \<Rightarrow> string \<Rightarrow> AppConfigFile \<Rightarrow> hstate \<Rightarrow> (bool \<times> goerror option) \<times> hstate" where
  "checkUserPassword W username password config s =
     (let bindDN = convertToBindDN W username (Bind_Pattern (Ldap config)) in
      case ldapLoop W bindDN password (Split (LDAP_Target_URLs (Ldap config)) (CHR '','')) s of
        (Some vaild, s1) \<Rightarrow> ((vaild, None), s1)
      | (None, s1) \<Rightarrow>
          if Htpasswd_Filename (Base config) \<noteq> [] then
            (let s2 = emit (Call_ReadFile (Htpasswd_Filename (Base config)))
                        (emit (Log ''I have htpasswed filename'') s1) in
             case ReadFile W (Htpasswd_Filename (Base config)) of
               Inl err \<Rightarrow> ((False, Some err), s2)
             | Inr buffer \<Rightarrow>
                 (let s3 = emit (Call_CheckHtpasswdUserPassword username password buffer) s2 in
                  case CheckHtpasswdUserPassword W username password buffer of
                    Inl err \<Rightarrow> ((False, Some err), s3)
                  | Inr valid \<Rightarrow> ((valid, None), s3)))
          else ((False, None), s1))"

subsection \<open>writeFailureResponse, checkAuth\<close>

definition writeFailureResponse :: "world \<Rightarrow> int \<Rightarrow> string \<Rightarrow> hstate \<Rightarrow> hstate" where
  "writeFailureResponse W code message w =
     (let w1 = (if code = StatusUnauthorized
                then Header_Set ''WWW-Authenticate'' ''Basic realm=\"User Credentials\"'' w
                else w);
          w2 = WriteHeader code w1;
          publicErrorText = itoa code @ '' '' @ StatusText W code @ '' '' @ message @ [CHR 0x0A]
      in Write publicErrorText w2)"

text \<open>The result is Go's pair \<open>(string, error)\<close>.\<close>

definition checkAuth ::
  "world \<Rightarrow> request \<Rightarrow> AppConfigFile \<Rightarrow> hstate \<Rightarrow> (string \<times> goerror option) \<times> hstate" where
  "checkAuth W r config w =
     (case BasicAuth r of
        None \<Rightarrow>
          (([], Some ''check_Auth, Invalid or no auth header''),
           writeFailureResponse W StatusUnauthorized [] w)
      | Some (user, pass) \<Rightarrow>
          (case checkUserPassword W user pass config w of
             ((valid, Some err), w1) \<Rightarrow>
               (([], Some err), writeFailureResponse W StatusInternalServerError [] w1)
           | ((valid, None), w1) \<Rightarrow>
               if \<not> valid then
                 (([], Some ''Invalid Credentials''),
                  writeFailureResponse W StatusUnauthorized [] w1)
               else ((user, None), w1)))"

subsection \<open>The pieces of regexp and unicode/utf8 that the handler uses\<close>

text \<open>
  \<open>regexp\<close> reads its subject as UTF-8: \<open>utf8.DecodeRuneInString\<close> gives the first
  code point of a string and the number of bytes it takes; a byte that starts no
  well-formed encoding is read alone, as \<open>RuneError\<close>. The table \<open>first\<close> of the
  package gives, for the first byte of an encoding of several bytes, its length
  (\<open>sizeOf\<close>) and the range that the second byte must lie in (\<open>acceptLo\<close>,
  \<open>acceptHi\<close>); \<open>rune2\<close>, \<open>rune3\<close> and \<open>rune4\<close> put the bits of the bytes together.
\<close>

definition RuneError :: nat where "RuneError = 0xFFFD"

definition locb :: nat where "locb = 0x80"

definition hicb :: nat where "hicb = 0xBF"

definition sizeOf :: "nat \<Rightarrow> nat" where
  "sizeOf s0 = (if s0 < 0xE0 then 2 else if s0 < 0xF0 then 3 else 4)"

definition acceptLo :: "nat \<Rightarrow> nat" where
  "acceptLo s0 = (if s0 = 0xE0 then 0xA0 else if s0 = 0xF0 then 0x90 else locb)"

definition acceptHi :: "nat \<Rightarrow> nat" where
  "acceptHi s0 = (if s0 = 0xED then 0x9F else if s0 = 0xF4 then 0x8F else hicb)"

definition rune2 :: "nat \<Rightarrow> nat \<Rightarrow> nat" where
  "rune2 s0 s1 = (s0 mod 32) * 64 + s1 mod 64"

definition rune3 :: "nat \<Rightarrow> nat \<Rightarrow> nat \<Rightarrow> nat" where
  "rune3 s0 s1 s2 = (s0 mod 16) * 4096 + (s1 mod 64) * 64 + s2 mod 64"

definition rune4 :: "nat \<Rightarrow> nat \<Rightarrow> nat \<Rightarrow> nat \<Rightarrow> nat" where
  "rune4 s0 s1 s2 s3 = (s0 mod 8) * 262144 + (s1 mod 64) * 4096 + (s2 mod 64) * 64 + s3 mod 64"

text \<open>
  The part of \<open>DecodeRuneInString\<close> after the first byte \<open>s0\<close> has been found to
  start an encoding of several bytes; \<open>ss\<close> are the bytes that follow it.
\<close>

definition decodeMultibyte :: "nat \<Rightarrow> nat list \<Rightarrow> nat \<times> nat" where
  "decodeMultibyte s0 ss =
     (if length ss + 1 < sizeOf s0 then (RuneError, 1)
      else case ss of
        [] \<Rightarrow> (RuneError, 1)
      | s1 # ss1 \<Rightarrow>
          if s1 < acceptLo s0 \<or> acceptHi s0 < s1 then (RuneError, 1)
          else if sizeOf s0 \<le> 2 then (rune2 s0 s1, 2)
          else case ss1 of
            [] \<Rightarrow> (RuneError, 1)
          | s2 # ss2 \<Rightarrow>
              if s2 < locb \<or> hicb < s2 then (RuneError, 1)
              else if sizeOf s0 \<le> 3 then (rune3 s0 s1 s2, 3)
              else case ss2 of
                [] \<Rightarrow> (RuneError, 1)
              | s3 # ss3 \<Rightarrow>
                  if s3 < locb \<or> hicb < s3 then (RuneError, 1)
                  else (rune4 s0 s1 s2 s3, 4))"

fun DecodeRuneInString :: "string \<Rightarrow> nat \<times> nat" where
  "DecodeRuneInString [] = (RuneError, 0)"
| "DecodeRuneInString (c0 # cs) =
     (let s0 = (of_char c0 :: nat) in
      if s0 < 0x80 then (s0, 1)
      else if s0 < 0xC2 \<or> 0xF4 < s0 then (RuneError, 1)
      else decodeMultibyte s0 (map of_char cs))"

text \<open>The code points of a string, in order, as the matcher steps through them.\<close>

function runes :: "string \<Rightarrow> nat list" where
  "runes [] = []"
| "runes (c # cs) =
     fst (DecodeRuneInString (c # cs)) # runes (drop (snd (DecodeRuneInString (c # cs)) - 1) cs)"
  by pat_completeness auto
termination
  by (relation "measure length") auto

text \<open>
  The syntax tree of a pattern, with the operators of \<open>regexp/syntax\<close> that the
  pattern of this program needs. \<open>CharClass\<close> holds the ranges of a bracket
  expression, \<open>AnyCharNotNL\<close> is \<open>.\<close> (without the flag \<open>s\<close>), \<open>RepeatUpTo r n\<close>
  is \<open>r{0,n}\<close>.
\<close>

datatype regexp =
  NoMatch
| EmptyMatch
| Literal nat
| CharClass "(nat \<times> nat) list"
| AnyCharNotNL
| Concat regexp regexp
| Alternate regexp regexp
| Quest regexp
| Star regexp
| Plus regexp
| RepeatUpTo regexp nat

primrec nullable :: "regexp \<Rightarrow> bool" where
  "nullable NoMatch = False"
| "nullable EmptyMatch = True"
| "nullable (Literal c) = False"
| "nullable (CharClass rs) = False"
| "nullable AnyCharNotNL = False"
| "nullable (Concat r s) = (nullable r \<and> nullable s)"
| "nullable (Alternate r s) = (nullable r \<or> nullable s)"
| "nullable (Quest r) = True"
| "nullable (Star r) = True"
| "nullable (Plus r) = nullable r"
| "nullable (RepeatUpTo r n) = True"

definition inClass :: "(nat \<times> nat) list \<Rightarrow> nat \<Rightarrow> bool" where
  "inClass rs a = list_ex (\<lambda>(lo, hi). lo \<le> a \<and> a \<le> hi) rs"

text \<open>
  What is left of a pattern once the code point \<open>a\<close> has been read. \<open>seq\<close> and
  \<open>alt\<close> build a concatenation and an alternation and drop the operands that can
  match nothing more, so that the pattern stays small while a subject is read.
\<close>

fun seq :: "regexp \<Rightarrow> regexp \<Rightarrow> regexp" where
  "seq NoMatch s = NoMatch"
| "seq EmptyMatch s = s"
| "seq r s = Concat r s"

fun altRight :: "regexp \<Rightarrow> regexp \<Rightarrow> regexp" where
  "altRight r NoMatch = r"
| "altRight r s = Alternate r s"

fun alt :: "regexp \<Rightarrow> regexp \<Rightarrow> regexp" where
  "alt NoMatch s = s"
| "alt r s = altRight r s"

primrec deriv :: "nat \<Rightarrow> regexp \<Rightarrow> regexp" where
  "deriv a NoMatch = NoMatch"
| "deriv a EmptyMatch = NoMatch"
| "deriv a (Literal c) = (if a = c then EmptyMatch else NoMatch)"
| "deriv a (CharClass rs) = (if inClass rs a then EmptyMatch else NoMatch)"
| "deriv a AnyCharNotNL = (if a \<noteq> 0x0A then EmptyMatch else NoMatch)"
| "deriv a (Concat r s) =
     (if nullable r then alt (seq (deriv a r) s) (deriv a s) else seq (deriv a r) s)"
| "deriv a (Alternate r s) = alt (deriv a r) (deriv a s)"
| "deriv a (Quest r) = deriv a r"
| "deriv a (Star r) = seq (deriv a r) (Star r)"
| "deriv a (Plus r) = seq (deriv a r) (Star r)"
| "deriv a (RepeatUpTo r n) =
     (case n of 0 \<Rightarrow> NoMatch | Suc m \<Rightarrow> seq (deriv a r) (RepeatUpTo r m))"

definition matches :: "regexp \<Rightarrow> nat list \<Rightarrow> bool" where
  "matches r w = nullable (foldl (\<lambda>r a. deriv a r) r w)"

definition literal :: "string \<Rightarrow> regexp" where
  "literal s = foldr (\<lambda>c r. Concat (Literal (of_char c)) r) s EmptyMatch"

definition concats :: "regexp list \<Rightarrow> regexp" where
  "concats rs = foldr Concat rs EmptyMatch"

text \<open>
  The pattern of the handler,
  \<^verbatim>\<open>^(ssh-rsa|ssh-dss|ecdsa-sha2-nistp256|ssh-ed25519) [a-zA-Z0-9/+]+=?=? ?.{0,512}\n?$\<close>
  (the \<^verbatim>\<open>\n\<close> is a line feed, the Go literal being an interpreted string). It starts
  with \<^verbatim>\<open>^\<close> and ends with \<^verbatim>\<open>$\<close>, without the flag \<open>m\<close>, so the unanchored search of
  \<open>regexp.MatchString\<close> finds a match exactly when the whole subject matches what
  lies between the two anchors, which is \<open>keyPattern\<close>.
\<close>

definition keyPattern :: regexp where
  "keyPattern = concats
     [Alternate (literal ''ssh-rsa'') (Alternate (literal ''ssh-dss'')
        (Alternate (literal ''ecdsa-sha2-nistp256'') (literal ''ssh-ed25519''))),
      Literal 0x20,
      Plus (CharClass [(0x61, 0x7A), (0x41, 0x5A), (0x30, 0x39), (0x2F, 0x2F), (0x2B, 0x2B)]),
      Quest (Literal 0x3D),
      Quest (Literal 0x3D),
      Quest (Literal 0x20),
      RepeatUpTo AnyCharNotNL 512,
      Quest (Literal 0x0A)]"

text \<open>
  \<open>regexp.MatchString\<close> on a pattern anchored at both ends. Its error is that of
  compiling the pattern; a syntax tree has been compiled.
\<close>

definition MatchString :: "regexp \<Rightarrow> string \<Rightarrow> goerror + bool" where
  "MatchString pattern s = Inr (matches pattern (runes s))"

subsection \<open>What a pattern denotes\<close>

text \<open>
  The set of code-point sequences a pattern matches, as the documentation of
  \<open>regexp/syntax\<close> gives it. It is what \<open>matches\<close> is measured against.
\<close>

definition conc :: "nat list set \<Rightarrow> nat list set \<Rightarrow> nat list set" where
  "conc A B = {u @ v | u v. u \<in> A \<and> v \<in> B}"

inductive_set star :: "nat list set \<Rightarrow> nat list set" for A :: "nat list set" where
  star_empty: "[] \<in> star A"
| star_more: "u \<in> A \<Longrightarrow> v \<in> star A \<Longrightarrow> u @ v \<in> star A"

primrec atMost_times :: "nat \<Rightarrow> nat list set \<Rightarrow> nat list set" where
  "atMost_times 0 A = {[]}"
| "atMost_times (Suc n) A = insert [] (conc A (atMost_times n A))"

primrec lang :: "regexp \<Rightarrow> nat list set" where
  "lang NoMatch = {}"
| "lang EmptyMatch = {[]}"
| "lang (Literal c) = {[c]}"
| "lang (CharClass rs) = {[a] | a. inClass rs a}"
| "lang AnyCharNotNL = {[a] | a. a \<noteq> 0x0A}"
| "lang (Concat r s) = conc (lang r) (lang s)"
| "lang (Alternate r s) = lang r \<union> lang s"
| "lang (Quest r) = insert [] (lang r)"
| "lang (Star r) = star (lang r)"
| "lang (Plus r) = conc (lang r) (star (lang r))"
| "lang (RepeatUpTo r n) = atMost_times n (lang r)"

subsection \<open>certGenHandler\<close>

definition CERTGEN_PATH :: string where "CERTGEN_PATH = ''/certgen/''"

text \<open>
  \<open>r.FormFile(key)\<close> after the form has been parsed: the first file of the field,
  opened and read to its end, or \<open>http.ErrMissingFile\<close>.
\<close>

definition FormFile :: "(string \<Rightarrow> (goerror + string) list) \<Rightarrow> string \<Rightarrow> goerror + string" where
  "FormFile files key = (case files key of [] \<Rightarrow> Inl ''http: no such file'' | f # _ \<Rightarrow> f)"

text \<open>The statements after the \<open>switch\<close>, run when a branch has left a certificate.\<close>

definition sendCert :: "string \<Rightarrow> string \<Rightarrow> hstate \<Rightarrow> hstate" where
  "sendCert cert targetUser w =
     emit (Log (''Generated Certifcate for '' @ targetUser))
       (Write cert
         (WriteHeader 200
           (Header_Set ''Content-Disposition'' ''attachment; filename=\"id_rsa-cert.pub\"'' w)))"

text \<open>
  The handler. \<open>None\<close> is the run-time panic of the slice expression
  \<open>r.URL.Path[len(CERTGEN_PATH):]\<close> on a path shorter than the prefix; the handler
  is registered under the pattern \<open>/certgen/\<close>, so the server hands it no such path.
\<close>

definition certGenHandler :: "world \<Rightarrow> RuntimeState \<Rightarrow> request \<Rightarrow> hstate \<Rightarrow> hstate option" where
  "certGenHandler W state r w =
     (case checkAuth W r (Config state) w of
        ((authUser, Some err), w1) \<Rightarrow> Some (emit (Log err) w1)
      | ((authUser, None), w1) \<Rightarrow>
          if length (URLPath r) < length CERTGEN_PATH then None
          else
            (let targetUser = drop (length CERTGEN_PATH) (URLPath r) in
             if authUser \<noteq> targetUser then
               Some (emit (Log (''User '' @ authUser @ '' asking for creds for '' @ targetUser))
                      (writeFailureResponse W StatusForbidden [] w1))
             else
               (let w2 = (if debug W then emit (Log (''auth succedded for '' @ authUser)) w1 else w1) in
                if Method r = ''GET'' then
                  (let w3 = emit (Call_GenSSHCertFileStringFromSSSDPublicKey targetUser
                                    (Signer state) (HostIdentity state)) w2 in
                   case GenSSHCertFileStringFromSSSDPublicKey W targetUser
                          (Signer state) (HostIdentity state) of
                     Inl err \<Rightarrow> Some (NotFound w3)
                   | Inr cert \<Rightarrow> Some (sendCert cert targetUser w3))
                else if Method r = ''POST'' then
                  (let w3 = (if debug W then emit (Log ''Got client POST connection'') w2 else w2);
                       w4 = emit (Call_ParseMultipartForm 10000000) w3 in
                   case MultipartForm r 10000000 of
                     Inl err \<Rightarrow>
                       Some (writeFailureResponse W StatusBadRequest ''Error parsing form''
                              (emit (Log err) w4))
                   | Inr files \<Rightarrow>
                       (let w5 = emit (Call_FormFile ''pubkeyfile'') w4 in
                        case FormFile files ''pubkeyfile'' of
                          Inl err \<Rightarrow>
                            Some (writeFailureResponse W StatusBadRequest ''Missing public key file''
                                   (emit (Log err) w5))
                        | Inr userPubKey \<Rightarrow>
                            (let w6 = emit (Call_MatchString userPubKey) w5 in
                             case MatchString keyPattern userPubKey of
                               Inl err \<Rightarrow>
                                 Some (writeFailureResponse W StatusInternalServerError []
                                        (emit (Log err) w6))
                             | Inr validKey \<Rightarrow>
                                 if \<not> validKey then
                                   Some (emit (Log ''invalid file, bad re'')
                                          (writeFailureResponse W StatusBadRequest
                                             ''Invalid File, bad re'' w6))
                                 else
                                   (let w7 = emit (Call_GenSSHCertFileString targetUser userPubKey
                                                     (Signer state) (HostIdentity state)) w6 in
                                    case GenSSHCertFileString W targetUser userPubKey
                                           (Signer state) (HostIdentity state) of
                                      Inl err \<Rightarrow>
                                        Some (emit (Log ''signUserPubkey Err'')
                                               (writeFailureResponse W StatusInternalServerError [] w7))
                                    | Inr cert \<Rightarrow> Some (sendCert cert targetUser w7)))))
                else Some (writeFailureResponse W StatusMethodNotAllowed [] w2))))"

subsection \<open>Notions used to state the properties\<close>

text \<open>The calls to the certificate generator, and the calls that read or check a key.\<close>

fun isSigningCall :: "event \<Rightarrow> bool" where
  "isSigningCall (Call_GenSSHCertFileStringFromSSSDPublicKey user sg host) = True"
| "isSigningCall (Call_GenSSHCertFileString user key sg host) = True"
| "isSigningCall e = False"

fun isKeyValidationCall :: "event \<Rightarrow> bool" where
  "isKeyValidationCall (Call_ParseMultipartForm n) = True"
| "isKeyValidationCall (Call_FormFile key) = True"
| "isKeyValidationCall (Call_MatchString s) = True"
| "isKeyValidationCall e = False"

text \<open>
  One backend of the authenticator, seen as a whole: what consulting it gives, a
  structural failure (\<open>Inl\<close>) or a verdict (\<open>Inr\<close>), and the calls that consulting it
  makes. An LDAP URL is consulted by parsing it and, if that succeeds, by one
  exchange; the htpasswd file by reading it and, if that succeeds, by one check.
\<close>

definition ldapBackend :: "world \<Rightarrow> string \<Rightarrow> string \<Rightarrow> string \<Rightarrow> goerror + bool" where
  "ldapBackend W bindDN password ldapUrl =
     (case ParseLDAPURL W ldapUrl of
        Inl err \<Rightarrow> Inl err
      | Inr u \<Rightarrow> CheckLDAPUserPassword W u bindDN password timeoutSecs)"

definition ldapEvents :: "world \<Rightarrow> string \<Rightarrow> string \<Rightarrow> string \<Rightarrow> event list" where
  "ldapEvents W bindDN password ldapUrl =
     (case ParseLDAPURL W ldapUrl of
        Inl err \<Rightarrow> [Call_ParseLDAPURL ldapUrl, Log (''Failed to parse '' @ ldapUrl)]
      | Inr u \<Rightarrow> [Call_ParseLDAPURL ldapUrl,
                  Call_CheckLDAPUserPassword u bindDN password timeoutSecs])"

definition htpasswdBackend :: "world \<Rightarrow> string \<Rightarrow> string \<Rightarrow> string \<Rightarrow> goerror + bool" where
  "htpasswdBackend W username password filename =
     (case ReadFile W filename of
        Inl err \<Rightarrow> Inl err
      | Inr buffer \<Rightarrow> CheckHtpasswdUserPassword W username password buffer)"

text \<open>
  The configured backends in their order, the LDAP URLs first and the htpasswd
  file, when one is configured, last; and the first verdict in a list of outcomes.
\<close>

definition backendOutcomes :: "world \<Rightarrow> string \<Rightarrow> string \<Rightarrow> AppConfigFile \<Rightarrow> (goerror + bool) list" where
  "backendOutcomes W username password config =
     map (ldapBackend W (convertToBindDN W username (Bind_Pattern (Ldap config))) password)
       (Split (LDAP_Target_URLs (Ldap config)) (CHR '',''))
     @ (if Htpasswd_Filename (Base config) \<noteq> []
        then [htpasswdBackend W username password (Htpasswd_Filename (Base config))]
        else [])"

fun firstVerdict :: "(goerror + bool) list \<Rightarrow> bool option" where
  "firstVerdict [] = None"
| "firstVerdict (Inl err # rest) = firstVerdict rest"
| "firstVerdict (Inr verdict # rest) = Some verdict"

text \<open>
  The algorithm names of the key pattern and the bytes of its bracket expression.
\<close>

definition algorithms :: "string list" where
  "algorithms = [''ssh-rsa'', ''ssh-dss'', ''ecdsa-sha2-nistp256'', ''ssh-ed25519'']"

definition isBase64 :: "char \<Rightarrow> bool" where
  "isBase64 c = (isLower c \<or> isUpper c \<or> isDigit c \<or> c = CHR ''/'' \<or> c = CHR ''+'')"

text \<open>
  The key grammar in the words of the specification: an algorithm name, a space,
  a base64 payload, then optionally a space and a comment of at most 512 bytes,
  then optionally one newline, all on one line. The payload is read as the
  handler's pattern reads it (base64 letters, then up to two \<open>=\<close>). The grammar is
  matched byte by byte, its bound on the comment being one in bytes.
\<close>

definition specKeyGrammar :: regexp where
  "specKeyGrammar = concats
     [Alternate (literal ''ssh-rsa'') (Alternate (literal ''ssh-dss'')
        (Alternate (literal ''ecdsa-sha2-nistp256'') (literal ''ssh-ed25519''))),
      Literal 0x20,
      Plus (CharClass [(0x61, 0x7A), (0x41, 0x5A), (0x30, 0x39), (0x2F, 0x2F), (0x2B, 0x2B)]),
      Quest (Literal 0x3D),
      Quest (Literal 0x3D),
      Quest (Concat (Literal 0x20) (RepeatUpTo AnyCharNotNL 512)),
      Quest (Literal 0x0A)]"

definition specAccepts :: "string \<Rightarrow> bool" where
  "specAccepts s = matches specKeyGrammar (map of_char s)"

subsection \<open>A deployment to run the handler on\<close>

text \<open>
  Two LDAP servers, the first of them out of reach, and an htpasswd file. The user
  \<open>alice\<close> has the password \<open>secret\<close> and no key on record; the certificate
  generator signs the key \<open>ssh-rsa AAAA\<close> and no other.
\<close>

definition demoWorld :: world where
  "demoWorld = \<lparr>
     ParseLDAPURL = (\<lambda>url. if url = ''%'' then Inl ''invalid URL escape'' else Inr (LdapURL url)),
     CheckLDAPUserPassword = (\<lambda>u bindDN password timeout.
        if u = LdapURL ''ldaps://a'' then Inl ''dial timeout''
        else Inr (bindDN = ''uid=alice'' \<and> password = ''secret'')),
     ReadFile = (\<lambda>filename. if filename = ''htpasswd'' then Inr ''alice:x'' else Inl ''no such file''),
     CheckHtpasswdUserPassword = (\<lambda>username password buffer.
        Inr (username = ''alice'' \<and> password = ''secret'')),
     GenSSHCertFileStringFromSSSDPublicKey = (\<lambda>user sg host. Inl ''no key for user''),
     GenSSHCertFileString = (\<lambda>user key sg host.
        if key = ''ssh-rsa AAAA'' then Inr ''cert'' else Inl ''cannot parse key''),
     Sprintf = (\<lambda>pattern arg. if pattern = ''uid=%s'' then ''uid='' @ arg else pattern),
     StatusText = (\<lambda>code. if code = 401 then ''Unauthorized'' else []),
     debug = False\<rparr>"

definition demoConfig :: "string \<Rightarrow> string \<Rightarrow> AppConfigFile" where
  "demoConfig urls htpasswd = \<lparr>
     Base = \<lparr>Http_Address = '':443'', TLS_Cert_Filename = ''cert.pem'',
             TLS_Key_Filename = ''key.pem'', UserAuth = [], SSH_CA_Filename = ''ca'',
             Htpasswd_Filename = htpasswd\<rparr>,
     Ldap = \<lparr>Bind_Pattern = ''uid=%s'', LDAP_Target_URLs = urls\<rparr>\<rparr>"

definition demoState :: "string \<Rightarrow> string \<Rightarrow> RuntimeState" where
  "demoState urls htpasswd =
     \<lparr>Config = demoConfig urls htpasswd, Signer = CASigner ''ca-key'', HostIdentity = ''host''\<rparr>"

definition demoRequest :: "string \<Rightarrow> string \<Rightarrow> (string \<times> string) option \<Rightarrow> string \<Rightarrow> request" where
  "demoRequest method path auth key = \<lparr>
     Method = method, URLPath = path, BasicAuth = auth,
     MultipartForm = (\<lambda>maxMemory. Inr (\<lambda>field. if field = ''pubkeyfile'' then [Inr key] else []))\<rparr>"

section \<open>Properties\<close>

subsection \<open>The response writer and the trace\<close>


lemma trace_emit [simp]: "trace (emit e s) = trace s @ [e]"
  by (simp add: emit_def)

lemma status_emit [simp]: "status (emit e s) = status s"
  by (simp add: emit_def)

lemma header_emit [simp]: "header (emit e s) = header s"
  by (simp add: emit_def)

lemma body_emit [simp]: "body (emit e s) = body s"
  by (simp add: emit_def)

lemmas response_defs =
  writeFailureResponse_def Write_def WriteHeader_def Header_Set_def Let_def

lemma status_writeFailureResponse [simp]:
  "status (writeFailureResponse W code message w) =
     (if status w = None then Some code else status w)"
  by (auto simp: response_defs)

lemma trace_writeFailureResponse [simp]:
  "trace (writeFailureResponse W code message w) = trace w"
  by (simp add: response_defs)

lemma header_writeFailureResponse:
  "header (writeFailureResponse W code message w) =
     (if code = StatusUnauthorized
      then (header w)(CanonicalMIMEHeaderKey ''WWW-Authenticate'' \<mapsto> [''Basic realm=\"User Credentials\"''])
      else header w)"
  by (simp add: response_defs)

lemma ldapLoop_frame:
  "ldapLoop W bindDN password urls s = (res, s') \<Longrightarrow>
     status s' = status s \<and> header s' = header s \<and> body s' = body s \<and>
     (\<exists>es. trace s' = trace s @ es \<and> (\<forall>e \<in> set es. \<not> isSigningCall e \<and> \<not> isKeyValidationCall e))"
proof (induction urls arbitrary: s)
  case Nil
  then show ?case by simp
next
  case (Cons url urls)
  show ?case
  proof (cases "ParseLDAPURL W url")
    case (Inl err)
    with Cons.prems have "ldapLoop W bindDN password urls
        (emit (Log (''Failed to parse '' @ url)) (emit (Call_ParseLDAPURL url) s)) = (res, s')"
      by (simp add: Let_def)
    from Cons.IH [OF this] show ?thesis by auto
  next
    case (Inr u)
    show ?thesis
    proof (cases "CheckLDAPUserPassword W u bindDN password timeoutSecs")
      case (Inl err)
      with Inr Cons.prems have "ldapLoop W bindDN password urls
          (emit (Call_CheckLDAPUserPassword u bindDN password timeoutSecs)
             (emit (Call_ParseLDAPURL url) s)) = (res, s')"
        by (simp add: Let_def)
      from Cons.IH [OF this] show ?thesis by auto
    next
      case (Inr vaild)
      with \<open>ParseLDAPURL W url = Inr u\<close> Cons.prems show ?thesis
        by (auto simp: Let_def)
    qed
  qed
qed

lemma checkUserPassword_frame:
  assumes "checkUserPassword W username password config s = (res, s')"
  shows "status s' = status s \<and> header s' = header s \<and> body s' = body s \<and>
     (\<exists>es. trace s' = trace s @ es \<and> (\<forall>e \<in> set es. \<not> isSigningCall e \<and> \<not> isKeyValidationCall e))"
proof -
  obtain lr s1 where loop: "ldapLoop W (convertToBindDN W username (Bind_Pattern (Ldap config)))
      password (Split (LDAP_Target_URLs (Ldap config)) (CHR '','')) s = (lr, s1)"
    by (cases "ldapLoop W (convertToBindDN W username (Bind_Pattern (Ldap config)))
      password (Split (LDAP_Target_URLs (Ldap config)) (CHR '','')) s")
  note f = ldapLoop_frame [OF loop]
  from f obtain es where es: "trace s1 = trace s @ es"
      "\<forall>e \<in> set es. \<not> isSigningCall e \<and> \<not> isKeyValidationCall e" by blast
  from assms loop have "status s' = status s1 \<and> header s' = header s1 \<and> body s' = body s1 \<and>
     (\<exists>es. trace s' = trace s1 @ es \<and> (\<forall>e \<in> set es. \<not> isSigningCall e \<and> \<not> isKeyValidationCall e))"
    by (auto simp: checkUserPassword_def Let_def split: option.splits sum.splits if_splits)
  with f es show ?thesis by auto
qed


lemma checkAuth_accepts:
  assumes "BasicAuth r = Some (A, pass)"
    and "fst (checkUserPassword W A pass config w) = (True, None)"
  shows "checkAuth W r config w = ((A, None), snd (checkUserPassword W A pass config w))"
  using assms by (cases "checkUserPassword W A pass config w") (auto simp: checkAuth_def)

lemma checkAuth_denies:
  assumes "BasicAuth r = Some (A, pass)"
    and "fst (checkUserPassword W A pass config w) = (False, None)"
  shows "checkAuth W r config w =
     (([], Some ''Invalid Credentials''),
      writeFailureResponse W StatusUnauthorized [] (snd (checkUserPassword W A pass config w)))"
  using assms by (cases "checkUserPassword W A pass config w") (auto simp: checkAuth_def)

lemma checkAuth_backend_error:
  assumes "BasicAuth r = Some (A, pass)"
    and "fst (checkUserPassword W A pass config w) = (valid, Some err)"
  shows "checkAuth W r config w =
     (([], Some err),
      writeFailureResponse W StatusInternalServerError [] (snd (checkUserPassword W A pass config w)))"
  using assms by (cases "checkUserPassword W A pass config w") (auto simp: checkAuth_def)

lemma checkAuth_no_credential:
  assumes "BasicAuth r = None"
  shows "checkAuth W r config w =
     (([], Some ''check_Auth, Invalid or no auth header''),
      writeFailureResponse W StatusUnauthorized [] w)"
  using assms by (simp add: checkAuth_def)

lemma after_checkUserPassword:
  "status (snd (checkUserPassword W A pass config newResponse)) = None \<and>
   header (snd (checkUserPassword W A pass config newResponse)) = Map.empty \<and>
   filter isSigningCall (trace (snd (checkUserPassword W A pass config newResponse))) = [] \<and>
   filter isKeyValidationCall (trace (snd (checkUserPassword W A pass config newResponse))) = []"
proof -
  have "checkUserPassword W A pass config newResponse =
      (fst (checkUserPassword W A pass config newResponse),
       snd (checkUserPassword W A pass config newResponse))" by simp
  from checkUserPassword_frame [OF this] show ?thesis
    by (auto simp: newResponse_def filter_empty_conv)
qed

subsection \<open>The identity check\<close>

text \<open>
  Claim C1. A request whose Basic-Auth credential authenticates as \<open>A\<close> and whose
  path names, after the prefix \<open>/certgen/\<close>, an identity that is not the string \<open>A\<close>
  is answered with 403 Forbidden, and the trace of the request holds no call to
  the certificate generator (neither \<open>GenSSHCertFileString\<close> nor
  \<open>GenSSHCertFileStringFromSSSDPublicKey\<close>).
\<close>

theorem identity_mismatch_is_forbidden:
  assumes "BasicAuth r = Some (A, pass)"
    and "fst (checkUserPassword W A pass (Config state) newResponse) = (True, None)"
    and "length CERTGEN_PATH \<le> length (URLPath r)"
    and "drop (length CERTGEN_PATH) (URLPath r) \<noteq> A"
  shows "\<exists>w'. certGenHandler W state r newResponse = Some w' \<and>
           status w' = Some StatusForbidden \<and> filter isSigningCall (trace w') = []"
  using assms(3,4) after_checkUserPassword [of W A pass "Config state"]
  by (simp add: certGenHandler_def checkAuth_accepts [OF assms(1,2)] Let_def)

lemma demo_alice_authenticates:
  "fst (checkUserPassword demoWorld ''alice'' ''secret'' (demoConfig ''ldaps://a,ldaps://b'' []) newResponse)
     = (True, None)"
  by (simp add: checkUserPassword_def convertToBindDN_def Split_def demoWorld_def demoConfig_def
      timeoutSecs_def Let_def)

theorem identity_mismatch_is_forbidden_witness:
  "\<exists>w'. certGenHandler demoWorld (demoState ''ldaps://a,ldaps://b'' [])
           (demoRequest ''POST'' ''/certgen/bob'' (Some (''alice'', ''secret'')) ''ssh-rsa AAAA'')
           newResponse = Some w' \<and>
         status w' = Some StatusForbidden \<and> filter isSigningCall (trace w') = []"
  using identity_mismatch_is_forbidden [of
      "demoRequest ''POST'' ''/certgen/bob'' (Some (''alice'', ''secret'')) ''ssh-rsa AAAA''"
      "''alice''" "''secret''" demoWorld "demoState ''ldaps://a,ldaps://b'' []"]
    demo_alice_authenticates
  by (simp add: demoRequest_def demoState_def CERTGEN_PATH_def)

subsection \<open>The challenge, the other methods, the two signing failures\<close>

lemma canonical_WWW_Authenticate:
  "CanonicalMIMEHeaderKey ''WWW-Authenticate'' = ''Www-Authenticate''"
  by code_simp

lemma Header_Get_challenge:
  "Header_Get (writeFailureResponse W StatusUnauthorized message w) ''WWW-Authenticate''
     = ''Basic realm=\"User Credentials\"''"
  by (simp add: Header_Get_def header_writeFailureResponse)

text \<open>
  Claim C8. A request for which \<open>r.BasicAuth()\<close> gives no credential (the header is
  absent or malformed), and a request whose credential the authenticator denies
  (\<open>false\<close> with no error), is answered with 401 Unauthorized, and the response
  carries the header \<open>WWW-Authenticate: Basic realm="User Credentials"\<close>.
\<close>

theorem unauthorized_carries_challenge:
  assumes "BasicAuth r = None \<or>
     (\<exists>user pass. BasicAuth r = Some (user, pass) \<and>
        fst (checkUserPassword W user pass (Config state) newResponse) = (False, None))"
  shows "\<exists>w'. certGenHandler W state r newResponse = Some w' \<and>
           status w' = Some StatusUnauthorized \<and>
           Header_Get w' ''WWW-Authenticate'' = ''Basic realm=\"User Credentials\"''"
  using assms
proof
  assume "BasicAuth r = None"
  then show ?thesis
    by (simp add: certGenHandler_def checkAuth_no_credential Header_Get_def
        header_writeFailureResponse newResponse_def)
next
  assume "\<exists>user pass. BasicAuth r = Some (user, pass) \<and>
        fst (checkUserPassword W user pass (Config state) newResponse) = (False, None)"
  then obtain user pass where cred: "BasicAuth r = Some (user, pass)"
    and deny: "fst (checkUserPassword W user pass (Config state) newResponse) = (False, None)"
    by blast
  show ?thesis
    using after_checkUserPassword [of W user pass "Config state"]
    by (simp add: certGenHandler_def checkAuth_denies [OF cred deny] Header_Get_def
        header_writeFailureResponse)
qed

lemma demo_mallory_denied:
  "fst (checkUserPassword demoWorld ''alice'' ''guess'' (demoConfig ''ldaps://a,ldaps://b'' []) newResponse)
     = (False, None)"
  by (simp add: checkUserPassword_def convertToBindDN_def Split_def demoWorld_def demoConfig_def
      timeoutSecs_def Let_def)

theorem unauthorized_carries_challenge_witness:
  "(\<exists>w'. certGenHandler demoWorld (demoState ''ldaps://a,ldaps://b'' [])
           (demoRequest ''GET'' ''/certgen/alice'' None []) newResponse = Some w' \<and>
         status w' = Some StatusUnauthorized \<and>
         Header_Get w' ''WWW-Authenticate'' = ''Basic realm=\"User Credentials\"'') \<and>
   (\<exists>w'. certGenHandler demoWorld (demoState ''ldaps://a,ldaps://b'' [])
           (demoRequest ''GET'' ''/certgen/alice'' (Some (''alice'', ''guess'')) []) newResponse = Some w' \<and>
         status w' = Some StatusUnauthorized \<and>
         Header_Get w' ''WWW-Authenticate'' = ''Basic realm=\"User Credentials\"'')"
proof
  show "\<exists>w'. certGenHandler demoWorld (demoState ''ldaps://a,ldaps://b'' [])
           (demoRequest ''GET'' ''/certgen/alice'' None []) newResponse = Some w' \<and>
         status w' = Some StatusUnauthorized \<and>
         Header_Get w' ''WWW-Authenticate'' = ''Basic realm=\"User Credentials\"''"
    by (rule unauthorized_carries_challenge) (simp add: demoRequest_def)
  show "\<exists>w'. certGenHandler demoWorld (demoState ''ldaps://a,ldaps://b'' [])
           (demoRequest ''GET'' ''/certgen/alice'' (Some (''alice'', ''guess'')) []) newResponse = Some w' \<and>
         status w' = Some StatusUnauthorized \<and>
         Header_Get w' ''WWW-Authenticate'' = ''Basic realm=\"User Credentials\"''"
    by (rule unauthorized_carries_challenge)
      (simp add: demoRequest_def demoState_def demo_mallory_denied)
qed

text \<open>
  Claim C9. A request that authenticates as \<open>A\<close> and asks for \<open>A\<close> with a method that
  is neither GET nor POST is answered with 405 Method Not Allowed; the trace holds
  no call to the certificate generator and none that reads or checks a key.
\<close>

theorem other_methods_not_allowed:
  assumes "BasicAuth r = Some (A, pass)"
    and "fst (checkUserPassword W A pass (Config state) newResponse) = (True, None)"
    and "length CERTGEN_PATH \<le> length (URLPath r)"
    and "drop (length CERTGEN_PATH) (URLPath r) = A"
    and "Method r \<noteq> ''GET''" and "Method r \<noteq> ''POST''"
  shows "\<exists>w'. certGenHandler W state r newResponse = Some w' \<and>
           status w' = Some StatusMethodNotAllowed \<and>
           filter isSigningCall (trace w') = [] \<and>
           filter isKeyValidationCall (trace w') = []"
  using assms(3-6) after_checkUserPassword [of W A pass "Config state"]
  by (simp add: certGenHandler_def checkAuth_accepts [OF assms(1,2)] Let_def)

theorem other_methods_not_allowed_witness:
  "\<exists>w'. certGenHandler demoWorld (demoState ''ldaps://a,ldaps://b'' [])
           (demoRequest ''PUT'' ''/certgen/alice'' (Some (''alice'', ''secret'')) ''ssh-rsa AAAA'')
           newResponse = Some w' \<and>
         status w' = Some StatusMethodNotAllowed \<and>
         filter isSigningCall (trace w') = [] \<and>
         filter isKeyValidationCall (trace w') = []"
  using other_methods_not_allowed [of
      "demoRequest ''PUT'' ''/certgen/alice'' (Some (''alice'', ''secret'')) ''ssh-rsa AAAA''"
      "''alice''" "''secret''" demoWorld "demoState ''ldaps://a,ldaps://b'' []"]
    demo_alice_authenticates
  by (simp add: demoRequest_def demoState_def CERTGEN_PATH_def)


lemma status_NotFound [simp]:
  "status (NotFound w) = (if status w = None then Some StatusNotFound else status w)"
  by (auto simp: NotFound_def response_defs)

lemma trace_NotFound [simp]: "trace (NotFound w) = trace w"
  by (simp add: NotFound_def response_defs)

lemma status_sendCert [simp]:
  "status (sendCert cert targetUser w) = (if status w = None then Some 200 else status w)"
  by (auto simp: sendCert_def response_defs)

lemma trace_sendCert [simp]:
  "trace (sendCert cert targetUser w) = trace w @ [Log (''Generated Certifcate for '' @ targetUser)]"
  by (simp add: sendCert_def response_defs)

text \<open>
  Claim C7. For a request that authenticates as \<open>A\<close> and asks for \<open>A\<close>: on GET, a
  failure of the certificate generator's key lookup is answered with 404 Not
  Found; on POST, a failure of the certificate generator on the key the caller
  sent (a key that passed the pattern) is answered with 500 Internal Server Error.
\<close>

theorem signing_failure_classification:
  assumes "BasicAuth r = Some (A, pass)"
    and "fst (checkUserPassword W A pass (Config state) newResponse) = (True, None)"
    and "length CERTGEN_PATH \<le> length (URLPath r)"
    and "drop (length CERTGEN_PATH) (URLPath r) = A"
  shows "(Method r = ''GET'' \<and>
          GenSSHCertFileStringFromSSSDPublicKey W A (Signer state) (HostIdentity state) = Inl err
          \<longrightarrow> (\<exists>w'. certGenHandler W state r newResponse = Some w' \<and>
                     status w' = Some StatusNotFound)) \<and>
         (Method r = ''POST'' \<and> MultipartForm r 10000000 = Inr files \<and>
          FormFile files ''pubkeyfile'' = Inr userPubKey \<and>
          MatchString keyPattern userPubKey = Inr True \<and>
          GenSSHCertFileString W A userPubKey (Signer state) (HostIdentity state) = Inl err
          \<longrightarrow> (\<exists>w'. certGenHandler W state r newResponse = Some w' \<and>
                     status w' = Some StatusInternalServerError))"
  using assms(3,4) after_checkUserPassword [of W A pass "Config state"]
  by (simp add: certGenHandler_def checkAuth_accepts [OF assms(1,2)] Let_def)

lemma demo_key_BBBB: "MatchString keyPattern ''ssh-rsa BBBB'' = Inr True"
  by code_simp

theorem signing_failure_classification_witness:
  "(\<exists>w'. certGenHandler demoWorld (demoState ''ldaps://a,ldaps://b'' [])
            (demoRequest ''GET'' ''/certgen/alice'' (Some (''alice'', ''secret'')) [])
            newResponse = Some w' \<and> status w' = Some StatusNotFound) \<and>
   (\<exists>w'. certGenHandler demoWorld (demoState ''ldaps://a,ldaps://b'' [])
            (demoRequest ''POST'' ''/certgen/alice'' (Some (''alice'', ''secret'')) ''ssh-rsa BBBB'')
            newResponse = Some w' \<and> status w' = Some StatusInternalServerError)"
proof
  show "\<exists>w'. certGenHandler demoWorld (demoState ''ldaps://a,ldaps://b'' [])
            (demoRequest ''GET'' ''/certgen/alice'' (Some (''alice'', ''secret'')) [])
            newResponse = Some w' \<and> status w' = Some StatusNotFound"
    using signing_failure_classification [of
        "demoRequest ''GET'' ''/certgen/alice'' (Some (''alice'', ''secret'')) []"
        "''alice''" "''secret''" demoWorld "demoState ''ldaps://a,ldaps://b'' []"
        "''no key for user''"]
      demo_alice_authenticates
    by (simp add: demoRequest_def demoState_def demoWorld_def CERTGEN_PATH_def)
  show "\<exists>w'. certGenHandler demoWorld (demoState ''ldaps://a,ldaps://b'' [])
            (demoRequest ''POST'' ''/certgen/alice'' (Some (''alice'', ''secret'')) ''ssh-rsa BBBB'')
            newResponse = Some w' \<and> status w' = Some StatusInternalServerError"
    using signing_failure_classification [of
        "demoRequest ''POST'' ''/certgen/alice'' (Some (''alice'', ''secret'')) ''ssh-rsa BBBB''"
        "''alice''" "''secret''" demoWorld "demoState ''ldaps://a,ldaps://b'' []"
        "''cannot parse key''"
        "\<lambda>field. if field = ''pubkeyfile'' then [Inr ''ssh-rsa BBBB''] else []"
        "''ssh-rsa BBBB''"]
      demo_alice_authenticates demo_key_BBBB
    by (simp add: demoRequest_def demoState_def demoWorld_def CERTGEN_PATH_def FormFile_def)
qed

text \<open>
  Claim C10. \<open>writeFailureResponse\<close> with a code other than 401 leaves the header
  map of the response as it was, so it sets no \<open>WWW-Authenticate\<close> header; and with
  any code it leaves every header other than \<open>WWW-Authenticate\<close> as it was.
\<close>

theorem challenge_header_only_on_401:
  "(code \<noteq> StatusUnauthorized \<longrightarrow>
      header (writeFailureResponse W code message w) = header w) \<and>
   (\<forall>key. key \<noteq> CanonicalMIMEHeaderKey ''WWW-Authenticate'' \<longrightarrow>
      header (writeFailureResponse W code message w) key = header w key)"
  by (simp add: response_defs)

theorem challenge_header_only_on_401_witness:
  "header (writeFailureResponse demoWorld StatusForbidden [] newResponse) = Map.empty \<and>
   header (writeFailureResponse demoWorld StatusUnauthorized [] newResponse) ''Content-Type'' = None"
  using challenge_header_only_on_401 [of StatusForbidden demoWorld "[]" newResponse]
    challenge_header_only_on_401 [of StatusUnauthorized demoWorld "[]" newResponse]
    canonical_WWW_Authenticate
  by (simp add: newResponse_def StatusForbidden_def StatusUnauthorized_def)

subsection \<open>The order of the backends\<close>

lemma emit_as_update: "emit e s = s\<lparr>trace := trace s @ [e]\<rparr>"
  by (simp add: emit_def)

lemma ldapLoop_failing_backend:
  assumes "isl (ldapBackend W bindDN password ldapUrl)"
  shows "ldapLoop W bindDN password (ldapUrl # rest) s =
           ldapLoop W bindDN password rest
             (s\<lparr>trace := trace s @ ldapEvents W bindDN password ldapUrl\<rparr>)"
  using assms
  by (auto simp: ldapBackend_def ldapEvents_def emit_def Let_def split: sum.splits)

lemma ldapLoop_answering_backend:
  assumes "ldapBackend W bindDN password ldapUrl = Inr verdict"
  shows "ldapLoop W bindDN password (ldapUrl # rest) s =
           (Some verdict, s\<lparr>trace := trace s @ ldapEvents W bindDN password ldapUrl\<rparr>)"
  using assms
  by (auto simp: ldapBackend_def ldapEvents_def emit_def Let_def split: sum.splits)

lemma ldapLoop_failing_prefix:
  assumes "\<forall>x \<in> set pre. isl (ldapBackend W bindDN password x)"
  shows "ldapLoop W bindDN password (pre @ rest) s =
           ldapLoop W bindDN password rest
             (s\<lparr>trace := trace s @ concat (map (ldapEvents W bindDN password) pre)\<rparr>)"
  using assms
proof (induction pre arbitrary: s)
  case Nil
  show ?case by simp
next
  case (Cons x pre)
  then have "isl (ldapBackend W bindDN password x)" by simp
  from ldapLoop_failing_backend [OF this] Cons show ?case by simp
qed

text \<open>
  Claim C2. When the LDAP URLs before \<open>ldapUrl\<close> in the configured list all fail
  structurally and \<open>ldapUrl\<close> gives a verdict, \<open>checkUserPassword\<close> returns that
  verdict with no error, and the calls it has made are those for the URLs up to
  \<open>ldapUrl\<close> and no others: no later URL and no htpasswd file is consulted,
  whatever they would have answered.
\<close>

theorem first_verdict_short_circuits:
  assumes "Split (LDAP_Target_URLs (Ldap config)) (CHR '','') = pre @ ldapUrl # post"
    and "\<forall>x \<in> set pre.
           isl (ldapBackend W (convertToBindDN W username (Bind_Pattern (Ldap config))) password x)"
    and "ldapBackend W (convertToBindDN W username (Bind_Pattern (Ldap config))) password ldapUrl
           = Inr verdict"
  shows "checkUserPassword W username password config s =
           ((verdict, None),
            s\<lparr>trace := trace s @
               concat (map (ldapEvents W (convertToBindDN W username (Bind_Pattern (Ldap config)))
                              password) (pre @ [ldapUrl]))\<rparr>)"
  by (simp add: checkUserPassword_def assms(1) ldapLoop_failing_prefix [OF assms(2)]
      ldapLoop_answering_backend [OF assms(3)] del: ldapLoop.simps)

theorem first_verdict_short_circuits_witness:
  "checkUserPassword demoWorld ''alice'' ''guess'' (demoConfig ''ldaps://a,ldaps://b,ldaps://c'' ''htpasswd'')
     newResponse =
   ((False, None),
    newResponse\<lparr>trace :=
      [Call_ParseLDAPURL ''ldaps://a'',
       Call_CheckLDAPUserPassword (LdapURL ''ldaps://a'') ''uid=alice'' ''guess'' 3,
       Call_ParseLDAPURL ''ldaps://b'',
       Call_CheckLDAPUserPassword (LdapURL ''ldaps://b'') ''uid=alice'' ''guess'' 3]\<rparr>)"
  using first_verdict_short_circuits [of "demoConfig ''ldaps://a,ldaps://b,ldaps://c'' ''htpasswd''"
      "[''ldaps://a'']" "''ldaps://b''" "[''ldaps://c'']" demoWorld "''alice''" "''guess''" False
      newResponse]
  by (simp add: Split_def demoConfig_def demoWorld_def convertToBindDN_def ldapBackend_def
      ldapEvents_def timeoutSecs_def newResponse_def)

lemma firstVerdict_append:
  "firstVerdict (xs @ ys) = (case firstVerdict xs of Some v \<Rightarrow> Some v | None \<Rightarrow> firstVerdict ys)"
  by (induction xs rule: firstVerdict.induct) simp_all

lemma ldapLoop_firstVerdict:
  "fst (ldapLoop W bindDN password urls s) = firstVerdict (map (ldapBackend W bindDN password) urls)"
  by (induction urls arbitrary: s) (auto simp: ldapBackend_def Let_def split: sum.splits)

lemma checkUserPassword_after_loop:
  "fst (checkUserPassword W username password config s) =
     (case firstVerdict (map (ldapBackend W (convertToBindDN W username (Bind_Pattern (Ldap config)))
                          password) (Split (LDAP_Target_URLs (Ldap config)) (CHR '',''))) of
        Some vaild \<Rightarrow> (vaild, None)
      | None \<Rightarrow>
          if Htpasswd_Filename (Base config) \<noteq> [] then
            (case htpasswdBackend W username password (Htpasswd_Filename (Base config)) of
               Inl err \<Rightarrow> (False, Some err) | Inr valid \<Rightarrow> (valid, None))
          else (False, None))"
proof -
  obtain lr s1 where loop: "ldapLoop W (convertToBindDN W username (Bind_Pattern (Ldap config)))
      password (Split (LDAP_Target_URLs (Ldap config)) (CHR '','')) s = (lr, s1)"
    by (cases "ldapLoop W (convertToBindDN W username (Bind_Pattern (Ldap config)))
      password (Split (LDAP_Target_URLs (Ldap config)) (CHR '','')) s")
  with ldapLoop_firstVerdict [of W "convertToBindDN W username (Bind_Pattern (Ldap config))"
      password "Split (LDAP_Target_URLs (Ldap config)) (CHR '','')" s]
  have "firstVerdict (map (ldapBackend W (convertToBindDN W username (Bind_Pattern (Ldap config)))
          password) (Split (LDAP_Target_URLs (Ldap config)) (CHR '',''))) = lr" by simp
  with loop show ?thesis
    by (auto simp: checkUserPassword_def htpasswdBackend_def Let_def split: option.splits sum.splits)
qed

text \<open>
  Claim C3. A backend that fails structurally (an LDAP URL that does not parse, an
  LDAP exchange that returns an error) is skipped and is no denial: the result of
  \<open>checkUserPassword\<close> is the verdict of the first backend, in the configured
  order, that gives one.
\<close>

theorem failing_backends_are_skipped:
  assumes "firstVerdict (backendOutcomes W username password config) = Some verdict"
  shows "fst (checkUserPassword W username password config s) = (verdict, None)"
  using assms
  by (auto simp: checkUserPassword_after_loop backendOutcomes_def firstVerdict_append
      split: option.splits sum.splits if_splits)

lemma demo_outcomes_ldap:
  "backendOutcomes demoWorld ''alice'' ''secret'' (demoConfig ''%,ldaps://a,ldaps://b'' [])
     = [Inl ''invalid URL escape'', Inl ''dial timeout'', Inr True]"
  by (simp add: backendOutcomes_def Split_def demoConfig_def demoWorld_def convertToBindDN_def
      ldapBackend_def timeoutSecs_def)

lemma demo_outcomes_htpasswd:
  "backendOutcomes demoWorld ''alice'' ''guess'' (demoConfig ''%,ldaps://a'' ''htpasswd'')
     = [Inl ''invalid URL escape'', Inl ''dial timeout'', Inr False]"
  by (simp add: backendOutcomes_def Split_def demoConfig_def demoWorld_def convertToBindDN_def
      ldapBackend_def htpasswdBackend_def timeoutSecs_def)

theorem failing_backends_are_skipped_witness:
  "fst (checkUserPassword demoWorld ''alice'' ''secret'' (demoConfig ''%,ldaps://a,ldaps://b'' [])
          newResponse) = (True, None) \<and>
   fst (checkUserPassword demoWorld ''alice'' ''guess'' (demoConfig ''%,ldaps://a'' ''htpasswd'')
          newResponse) = (False, None)"
  using failing_backends_are_skipped [of demoWorld "''alice''" "''secret''"
      "demoConfig ''%,ldaps://a,ldaps://b'' []" True newResponse]
    failing_backends_are_skipped [of demoWorld "''alice''" "''guess''"
      "demoConfig ''%,ldaps://a'' ''htpasswd''" False newResponse]
  by (simp add: demo_outcomes_ldap demo_outcomes_htpasswd)


lemma firstVerdict_all_fail:
  "\<forall>x \<in> set outcomes. isl x \<Longrightarrow> firstVerdict outcomes = None"
  by (induction outcomes rule: firstVerdict.induct) simp_all

text \<open>
  The path that keeps the structural failure: when every LDAP URL fails
  structurally and an htpasswd file is configured that cannot be read or
  evaluated, \<open>checkUserPassword\<close> returns that error and the handler answers 500
  Internal Server Error.
\<close>

lemma htpasswd_failure_is_internal_error:
  assumes "BasicAuth r = Some (username, password)"
    and "\<forall>x \<in> set (Split (LDAP_Target_URLs (Ldap (Config state))) (CHR '','')).
           isl (ldapBackend W (convertToBindDN W username (Bind_Pattern (Ldap (Config state))))
                  password x)"
    and "Htpasswd_Filename (Base (Config state)) \<noteq> []"
    and "htpasswdBackend W username password (Htpasswd_Filename (Base (Config state))) = Inl err"
  shows "fst (checkUserPassword W username password (Config state) newResponse)
           = (False, Some err) \<and>
         (\<exists>w'. certGenHandler W state r newResponse = Some w' \<and>
                status w' = Some StatusInternalServerError)"
proof -
  have none: "firstVerdict (map (ldapBackend W
        (convertToBindDN W username (Bind_Pattern (Ldap (Config state)))) password)
        (Split (LDAP_Target_URLs (Ldap (Config state))) (CHR '',''))) = None"
    using assms(2) by (intro firstVerdict_all_fail) simp
  have e: "fst (checkUserPassword W username password (Config state) newResponse)
      = (False, Some err)"
    using assms(3,4) by (simp add: checkUserPassword_after_loop none)
  have "\<exists>w'. certGenHandler W state r newResponse = Some w' \<and>
                status w' = Some StatusInternalServerError"
    using after_checkUserPassword [of W username password "Config state"]
    by (simp add: certGenHandler_def checkAuth_backend_error [OF assms(1) e])
  with e show ?thesis by blast
qed

text \<open>
  Claim C4: when every configured backend fails structurally the authenticator
  is to return an error, and the handler is to answer 500 and not 401. The code
  does so only when an htpasswd file is configured. With the LDAP URLs
  \<open>%,ldaps://a\<close>, the first of which does not parse and the second of which times
  out, and no htpasswd file, every configured backend has failed structurally,
  yet \<open>checkUserPassword\<close> runs to its last line and returns \<open>false\<close> with no
  error, and the handler answers 401 Unauthorized.
\<close>

theorem ldap_failures_alone_are_denied:
  "backendOutcomes demoWorld ''alice'' ''secret'' (demoConfig ''%,ldaps://a'' [])
     = [Inl ''invalid URL escape'', Inl ''dial timeout''] \<and>
   fst (checkUserPassword demoWorld ''alice'' ''secret'' (demoConfig ''%,ldaps://a'' []) newResponse)
     = (False, None) \<and>
   (\<exists>w'. certGenHandler demoWorld (demoState ''%,ldaps://a'' [])
            (demoRequest ''GET'' ''/certgen/alice'' (Some (''alice'', ''secret'')) [])
            newResponse = Some w' \<and> status w' = Some StatusUnauthorized)"
proof -
  have outcomes: "backendOutcomes demoWorld ''alice'' ''secret'' (demoConfig ''%,ldaps://a'' [])
     = [Inl ''invalid URL escape'', Inl ''dial timeout'']"
    by (simp add: backendOutcomes_def Split_def demoConfig_def demoWorld_def convertToBindDN_def
        ldapBackend_def timeoutSecs_def)
  have deny: "fst (checkUserPassword demoWorld ''alice'' ''secret'' (demoConfig ''%,ldaps://a'' [])
      newResponse) = (False, None)"
    by (simp add: checkUserPassword_def convertToBindDN_def Split_def demoWorld_def demoConfig_def
        timeoutSecs_def Let_def)
  have cred: "BasicAuth (demoRequest ''GET'' ''/certgen/alice'' (Some (''alice'', ''secret'')) [])
      = Some (''alice'', ''secret'')"
    by (simp add: demoRequest_def)
  have "\<exists>w'. certGenHandler demoWorld (demoState ''%,ldaps://a'' [])
            (demoRequest ''GET'' ''/certgen/alice'' (Some (''alice'', ''secret'')) [])
            newResponse = Some w' \<and> status w' = Some StatusUnauthorized"
    using after_checkUserPassword [of demoWorld "''alice''" "''secret''" "demoConfig ''%,ldaps://a'' []"]
      checkAuth_denies [OF cred, of demoWorld "demoConfig ''%,ldaps://a'' []" newResponse] deny
    by (simp add: certGenHandler_def demoState_def)
  with outcomes deny show ?thesis by blast
qed

end
